theory Spec2Isabelle
  imports Complex_Main "HOL-Library.Word"
begin

unbundle bit_operations_syntax

section \<open>Two Cars: the game core of main.cpp\<close>

text \<open>
  The source file holds two releases of the game, one after the other: the original
  release and the revised release. \<open>spawnObstacle\<close>, \<open>updateObstacles\<close>,
  \<open>checkCollision\<close>, \<open>update\<close> and the \<open>Car\<close> class are the same text in
  both. \<open>increaseDifficulty\<close> and \<open>handleEvents\<close> differ and are modelled per
  release. The persistence pair \<open>loadHighscore\<close>/\<open>saveHighscore\<close> is modelled as
  the revised release writes it (four raw bytes, XOR-encoded); the original release writes
  the number as decimal text through the formatted stream operators of the C++ library.

  Window, renderer, font and mixer calls are left out, except that every
  \<open>Mix_PlayChannel\<close> is logged. Positions, scores and rates are C++ \<open>int\<close>s that
  stay far from the 32-bit bounds in play and are modelled as \<open>int\<close>; the \<open>Uint32\<close>
  millisecond timestamps wrap and are \<open>32 word\<close>. The rotation angle is a \<open>real\<close>;
  the lane interpolation, whose result is truncated to an \<open>int\<close>, is computed with the
  rounding of \<open>double\<close> arithmetic as a parameter.
\<close>

subsection \<open>The preprocessor constants\<close>

definition SCREEN_WIDTH :: int where "SCREEN_WIDTH = 405"
definition SCREEN_HEIGHT :: int where "SCREEN_HEIGHT = 720"
definition CAR_WIDTH :: int where "CAR_WIDTH = SCREEN_WIDTH div 10"
definition CAR_HEIGHT :: int where "CAR_HEIGHT = SCREEN_HEIGHT div 11"
definition LANE_WIDTH :: int where "LANE_WIDTH = SCREEN_WIDTH div 4"
definition LANE_1 :: int where "LANE_1 = LANE_WIDTH div 2 - CAR_WIDTH div 2"
definition LANE_2 :: int where "LANE_2 = LANE_WIDTH + LANE_WIDTH div 2 - CAR_WIDTH div 2"
definition LANE_3 :: int where "LANE_3 = 2 * LANE_WIDTH + LANE_WIDTH div 2 - CAR_WIDTH div 2"
definition LANE_4 :: int where "LANE_4 = 3 * LANE_WIDTH + LANE_WIDTH div 2 - CAR_WIDTH div 2"
definition OBSTACLE_SIZE :: int where "OBSTACLE_SIZE = SCREEN_WIDTH div 10"

subsection \<open>Data\<close>

datatype GameState = MAIN_MENU | NORMAL_MODE | DEATH_SCREEN

text \<open>
  The texture handles that \<open>loadAssets\<close> creates. The code tells the kind of an
  obstacle by comparing its handle with the four obstacle handles; the handles are taken
  to be pairwise different (every asset loaded). The member \<open>texture\<close> is a pointer:
  \<open>Some h\<close> is the handle \<open>h\<close>, \<open>None\<close> a pointer value that is none of the
  handles.
\<close>

datatype texture = redCircle | redBox | blueCircle | blueBox | carRed | carBlue

datatype sound = circlePickupSound | deathSound | circleMissSound

record SDL_Rect =
  rect_x :: int
  rect_y :: int
  rect_w :: int
  rect_h :: int

record Entity =
  texture :: "texture option"
  destRect :: SDL_Rect
  collected :: bool

record Car = Entity +
  angle :: real
  rotating :: bool
  rotationStartTime :: "32 word"
  moving :: bool
  targetX :: int
  moveStartTime :: "32 word"

definition rotationDuration :: "32 word" where "rotationDuration = 200"
definition moveDuration :: "32 word" where "moveDuration = 200"

text \<open>
  The members of \<open>Game\<close> that the update core reads or writes, the two function-local
  statics (\<open>patternTimer\<close> of \<open>spawnObstacle\<close>, \<open>lastIncreaseTime\<close> of
  \<open>increaseDifficulty\<close>), and the outside world the core acts on: the file
  \<open>player.dat\<close> (\<open>None\<close> when it does not exist), whether it can be opened for
  writing, the number of \<open>saveHighscore\<close> calls so far, and the sounds played.
\<close>

record Game =
  isRunning :: bool
  currentState :: GameState
  obstacles :: "Entity list"
  blueCar :: Car
  redCar :: Car
  startTime :: "32 word"
  score :: int
  spawnRate :: int
  obstacleSpeed :: int
  highscore :: int
  playTextYPosition :: int
  playTextDirection :: int
  initialPlayTextYPosition :: int
  playTextRect1_y :: int
  playTextRect1_h :: int
  playTextRect2_y :: int
  patternTimer :: int
  lastIncreaseTime :: "32 word"
  playerDat :: "32 word option"
  playerDatWritable :: bool
  saveCalls :: nat
  played :: "sound list"

datatype release = Original | Revised

subsection \<open>spawnObstacle\<close>

record spawn_flags =
  redBoxSpawned :: bool
  blueBoxSpawned :: bool
  redCircleSpawned :: bool
  blueCircleSpawned :: bool

definition no_flags :: spawn_flags where
  "no_flags = \<lparr>redBoxSpawned = False, blueBoxSpawned = False,
                redCircleSpawned = False, blueCircleSpawned = False\<rparr>"

text \<open>
  The kind choice of one loop iteration on the red side and on the blue side. \<open>r\<close> is
  the value \<open>rand()\<close> returns if it is called (it is not called once the box flag is
  set: \<open>&&\<close> short-circuits). \<open>Entity obstacle;\<close> is declared inside the loop with no
  initialiser for \<open>texture\<close>, so the member starts with an indeterminate value \<open>u\<close>.
  When both flags of the side are set, neither branch assigns it, and the code that follows
  reads \<open>u\<close>. The compiled program finds there what the previous iteration left in the
  same stack slot: the handle of the entity pushed just before.
\<close>

definition choose_red :: "texture option \<Rightarrow> spawn_flags \<Rightarrow> nat \<Rightarrow> texture option \<times> spawn_flags" where
  "choose_red u f r =
     (if \<not> redBoxSpawned f \<and> r mod 2 = 0 then (Some redBox, f\<lparr>redBoxSpawned := True\<rparr>)
      else if \<not> redCircleSpawned f then (Some redCircle, f\<lparr>redCircleSpawned := True\<rparr>)
      else (u, f))"

definition choose_blue :: "texture option \<Rightarrow> spawn_flags \<Rightarrow> nat \<Rightarrow> texture option \<times> spawn_flags" where
  "choose_blue u f r =
     (if \<not> blueBoxSpawned f \<and> r mod 2 = 0 then (Some blueBox, f\<lparr>blueBoxSpawned := True\<rparr>)
      else if \<not> blueCircleSpawned f then (Some blueCircle, f\<lparr>blueCircleSpawned := True\<rparr>)
      else (u, f))"

text \<open>
  The y-coordinate of a new obstacle: \<open>-h\<close>, then the two gap adjustments against
  \<open>obstacles.back()\<close>, the first for a box handle, the second for a circle handle.
\<close>

definition shifted_y :: "Entity list \<Rightarrow> int \<Rightarrow> int" where
  "shifted_y obs y0 =
     (if rect_y (destRect (last obs)) < CAR_HEIGHT + 10
      then rect_y (destRect (last obs)) - (CAR_HEIGHT + 10) else y0)"

definition spawn_y :: "texture option \<Rightarrow> Entity list \<Rightarrow> int" where
  "spawn_y t obs =
     (let y0 = - OBSTACLE_SIZE;
          y1 = (if (t = Some redBox \<or> t = Some blueBox) \<and> obs \<noteq> [] then shifted_y obs y0 else y0);
          y2 = (if (t = Some redCircle \<or> t = Some blueCircle) \<and> obs \<noteq> [] then shifted_y obs y1 else y1)
      in y2)"

text \<open>
  One iteration of \<open>for (int i = 0; i < 2; ++i)\<close>. \<open>lanes\<close> is the vector after
  \<open>std::shuffle\<close>, \<open>coin i\<close> the outcome of \<open>rand()\<close> in iteration \<open>i\<close>, and
  \<open>junk i\<close> the indeterminate value of \<open>obstacle.texture\<close> at its declaration in
  iteration \<open>i\<close>.
\<close>

definition spawn_iter :: "int list \<Rightarrow> (nat \<Rightarrow> nat) \<Rightarrow> (nat \<Rightarrow> texture option) \<Rightarrow> nat
    \<Rightarrow> spawn_flags \<times> Entity list \<Rightarrow> spawn_flags \<times> Entity list" where
  "spawn_iter lanes coin junk i st =
     (case st of (f, obs) \<Rightarrow>
        let (t, f', lx) =
              (if lanes ! i = 0 \<or> lanes ! i = 1
               then (case choose_red (junk i) f (coin i) of (t, f') \<Rightarrow>
                       (t, f', if lanes ! i = 0 then LANE_3 else LANE_4))
               else (case choose_blue (junk i) f (coin i) of (t, f') \<Rightarrow>
                       (t, f', if lanes ! i = 2 then LANE_1 else LANE_2)));
            obstacle = \<lparr>texture = t,
                        destRect = \<lparr>rect_x = lx, rect_y = spawn_y t obs,
                                     rect_w = OBSTACLE_SIZE, rect_h = OBSTACLE_SIZE\<rparr>,
                        collected = False\<rparr>
        in (f', obs @ [obstacle]))"

definition spawnObstacle :: "int list \<Rightarrow> (nat \<Rightarrow> nat) \<Rightarrow> (nat \<Rightarrow> texture option) \<Rightarrow> Game \<Rightarrow> Game" where
  "spawnObstacle lanes coin junk g =
     (if patternTimer g = 0
      then g\<lparr>obstacles := snd (fold (spawn_iter lanes coin junk) [0, 1] (no_flags, obstacles g)),
             patternTimer := spawnRate g\<rparr>
      else g\<lparr>patternTimer := patternTimer g - 1\<rparr>)"

text \<open>The entities a call creates: what it appended to the obstacle list.\<close>

definition spawned :: "int list \<Rightarrow> (nat \<Rightarrow> nat) \<Rightarrow> (nat \<Rightarrow> texture option) \<Rightarrow> Game \<Rightarrow> Entity list" where
  "spawned lanes coin junk g =
     drop (length (obstacles g)) (obstacles (spawnObstacle lanes coin junk g))"

definition count_kind :: "texture \<Rightarrow> Entity list \<Rightarrow> nat" where
  "count_kind k es = length (filter (\<lambda>e. texture e = Some k) es)"

subsection \<open>updateObstacles\<close>

definition move_down :: "int \<Rightarrow> Entity \<Rightarrow> Entity" where
  "move_down v e = e\<lparr>destRect := (destRect e)\<lparr>rect_y := rect_y (destRect e) + v\<rparr>\<rparr>"

text \<open>
  The predicate handed to \<open>std::remove_if\<close>. It has effects on the game (a sound, the
  state), so it takes the game and returns it; \<open>remove_if\<close> calls it once per element,
  from the front.
\<close>

definition off_screen :: "Entity \<Rightarrow> Game \<Rightarrow> bool \<times> Game" where
  "off_screen e g =
     (if rect_y (destRect e) > SCREEN_HEIGHT
      then (True,
            if (texture e = Some redCircle \<or> texture e = Some blueCircle) \<and> \<not> collected e
            then g\<lparr>played := played g @ [circleMissSound], currentState := DEATH_SCREEN\<rparr>
            else g)
      else (False, g))"

fun remove_if :: "('a \<Rightarrow> 's \<Rightarrow> bool \<times> 's) \<Rightarrow> 'a list \<Rightarrow> 's \<Rightarrow> 'a list \<times> 's" where
  "remove_if p [] s = ([], s)"
| "remove_if p (e # es) s =
     (case p e s of (b, s') \<Rightarrow>
        case remove_if p es s' of (kept, s'') \<Rightarrow> (if b then kept else e # kept, s''))"

definition updateObstacles :: "Game \<Rightarrow> Game" where
  "updateObstacles g =
     (case remove_if off_screen (map (move_down (obstacleSpeed g)) (obstacles g)) g of
        (kept, g') \<Rightarrow> g'\<lparr>obstacles := kept\<rparr>)"

subsection \<open>The high score file\<close>

text \<open>
  \<open>highscore ^ 0xA5A5A5A5\<close> is computed on 32 bits and the four bytes of the result are
  written; the file content is modelled as that 32-bit value (a file of another length is
  outside the model). Reading converts the decoded bits back to a signed \<open>int\<close>. A file
  that cannot be opened is left as it is by \<open>saveHighscore\<close> and read as absent by
  \<open>loadHighscore\<close>.
\<close>

definition saveHighscore :: "Game \<Rightarrow> Game" where
  "saveHighscore g =
     (let g' = g\<lparr>saveCalls := saveCalls g + 1\<rparr>
      in if playerDatWritable g'
         then g'\<lparr>playerDat := Some (word_of_int (highscore g') XOR 0xA5A5A5A5)\<rparr>
         else g')"

definition loadHighscore :: "Game \<Rightarrow> Game" where
  "loadHighscore g =
     (case playerDat g of
        Some encodedHighscore \<Rightarrow> g\<lparr>highscore := sint (encodedHighscore XOR 0xA5A5A5A5)\<rparr>
      | None \<Rightarrow> g)"

subsection \<open>checkCollision\<close>

text \<open>
  Modelled from the spec: \<open>SDL_HasIntersection\<close> is a function of the SDL library and
  not of this repository. The spec asks for axis-aligned rectangle overlap with a
  non-empty intersection, as the library defines it: both rectangles non-empty and the
  overlap of positive width and height.
\<close>

definition SDL_HasIntersection :: "SDL_Rect \<Rightarrow> SDL_Rect \<Rightarrow> bool" where
  "SDL_HasIntersection a b \<longleftrightarrow>
     0 < rect_w a \<and> 0 < rect_h a \<and> 0 < rect_w b \<and> 0 < rect_h b \<and>
     max (rect_x a) (rect_x b) < min (rect_x a + rect_w a) (rect_x b + rect_w b) \<and>
     max (rect_y a) (rect_y b) < min (rect_y a + rect_h a) (rect_y b + rect_h b)"

definition collide_red :: "Entity \<Rightarrow> Game \<Rightarrow> Entity \<times> Game" where
  "collide_red ob g =
     (if SDL_HasIntersection (destRect (redCar g)) (destRect ob)
      then (if texture ob = Some redBox
            then (ob, g\<lparr>played := played g @ [deathSound], currentState := DEATH_SCREEN\<rparr>)
            else if texture ob = Some redCircle \<and> \<not> collected ob
            then (ob\<lparr>collected := True\<rparr>,
                  g\<lparr>score := score g + 1, played := played g @ [circlePickupSound]\<rparr>)
            else (ob, g))
      else (ob, g))"

definition collide_blue :: "Entity \<Rightarrow> Game \<Rightarrow> Entity \<times> Game" where
  "collide_blue ob g =
     (if SDL_HasIntersection (destRect (blueCar g)) (destRect ob)
      then (if texture ob = Some blueBox
            then (ob, g\<lparr>played := played g @ [deathSound], currentState := DEATH_SCREEN\<rparr>)
            else if texture ob = Some blueCircle \<and> \<not> collected ob
            then (ob\<lparr>collected := True\<rparr>,
                  g\<lparr>score := score g + 1, played := played g @ [circlePickupSound]\<rparr>)
            else (ob, g))
      else (ob, g))"

text \<open>The \<open>for (auto &obstacle : obstacles)\<close> loop: it has no \<open>break\<close>.\<close>

fun collide_loop :: "Entity list \<Rightarrow> Game \<Rightarrow> Entity list \<times> Game" where
  "collide_loop [] g = ([], g)"
| "collide_loop (ob # obs) g =
     (case collide_red ob g of (ob1, g1) \<Rightarrow>
        case collide_blue ob1 g1 of (ob2, g2) \<Rightarrow>
          case collide_loop obs g2 of (obs', g') \<Rightarrow> (ob2 # obs', g'))"

definition checkCollision :: "Game \<Rightarrow> Game" where
  "checkCollision g =
     (case collide_loop (obstacles g) g of
        (obs, g1) \<Rightarrow>
          let g2 = g1\<lparr>obstacles := filter (\<lambda>e. \<not> collected e) obs\<rparr>
          in if currentState g2 = DEATH_SCREEN \<and> score g2 > highscore g2
             then saveHighscore (g2\<lparr>highscore := score g2\<rparr>)
             else g2)"

subsection \<open>increaseDifficulty\<close>

text \<open>
  The two releases differ in two literals: the period of the schedule (15 and 30 seconds)
  and the bound in the guard of the spawn rate (10 and 20). \<open>currentTime\<close> is what
  \<open>SDL_GetTicks\<close> returns; the arithmetic on times is unsigned 32-bit.
\<close>

definition increaseDifficulty :: "release \<Rightarrow> 32 word \<Rightarrow> Game \<Rightarrow> Game" where
  "increaseDifficulty rel currentTime g =
     (let elapsedTime = (currentTime - startTime g) div 1000
      in if elapsedTime mod (case rel of Original \<Rightarrow> 15 | Revised \<Rightarrow> 30) = 0
            \<and> currentTime - lastIncreaseTime g \<ge> 1000
         then (let g1 = (if spawnRate g > (case rel of Original \<Rightarrow> 10 | Revised \<Rightarrow> 20)
                         then g\<lparr>spawnRate := spawnRate g - 20\<rparr> else g);
                   g2 = (if obstacleSpeed g1 < 15
                         then g1\<lparr>obstacleSpeed := obstacleSpeed g1 + 2\<rparr> else g1)
               in g2\<lparr>lastIncreaseTime := currentTime\<rparr>)
         else g)"

subsection \<open>The Car animations\<close>

text \<open>
  Conversion of a \<open>double\<close> to \<open>int\<close> truncates towards zero. In \<open>updateMovement\<close>
  the expression \<open>destRect.x + t * (targetX - destRect.x)\<close> is evaluated in \<open>double\<close>:
  \<open>fl\<close> is the rounding of an exact result to a \<open>double\<close>, a parameter of the model,
  applied once per operation (the division, the product, the sum); the conversions of the
  integers to \<open>double\<close> are exact.
\<close>

definition double_to_int :: "real \<Rightarrow> int" where
  "double_to_int r = (if 0 \<le> r then \<lfloor>r\<rfloor> else \<lceil>r\<rceil>)"

definition updateRotation :: "32 word \<Rightarrow> Car \<Rightarrow> Car" where
  "updateRotation currentTime c =
     (if rotating c
      then (let elapsedTime = currentTime - rotationStartTime c
            in if elapsedTime < rotationDuration
               then c\<lparr>angle := 15 * sin ((pi / real (unat rotationDuration)) * real (unat elapsedTime))\<rparr>
               else c\<lparr>angle := 0, rotating := False\<rparr>)
      else c)"

definition updateMovement :: "(real \<Rightarrow> real) \<Rightarrow> 32 word \<Rightarrow> Car \<Rightarrow> Car" where
  "updateMovement fl currentTime c =
     (if moving c
      then (let elapsedTime = currentTime - moveStartTime c
            in if elapsedTime < moveDuration
               then (let t = fl (real (unat elapsedTime) / real (unat moveDuration));
                         x0 = rect_x (destRect c)
                     in c\<lparr>destRect := (destRect c)\<lparr>rect_x :=
                            double_to_int
                              (fl (real_of_int x0 + fl (t * real_of_int (targetX c - x0))))\<rparr>\<rparr>)
               else c\<lparr>destRect := (destRect c)\<lparr>rect_x := targetX c\<rparr>, moving := False\<rparr>)
      else c)"

subsection \<open>handleEvents\<close>

datatype key = SDLK_ESCAPE | SDLK_a | SDLK_d | SDLK_r | SDLK_h | SDLK_other

text \<open>
  The event \<open>SDL_PollEvent\<close> delivers. A mouse press carries the pointer position that
  \<open>SDL_GetMouseState\<close> reports. \<open>SDL_other\<close> is any event type the \<open>switch\<close> has no
  case for.
\<close>

datatype event = SDL_QUIT | SDL_KEYDOWN key | SDL_MOUSEBUTTONDOWN int int | SDL_other

definition restartButtonRect :: SDL_Rect where
  "restartButtonRect = \<lparr>rect_x = SCREEN_WIDTH div 2 - 50, rect_y = SCREEN_HEIGHT div 2 - 20,
                        rect_w = 100, rect_h = 40\<rparr>"

definition homeButtonRect :: SDL_Rect where
  "homeButtonRect = \<lparr>rect_x = SCREEN_WIDTH div 2 - 50, rect_y = SCREEN_HEIGHT div 2 + 30,
                     rect_w = 100, rect_h = 40\<rparr>"

definition inside :: "SDL_Rect \<Rightarrow> int \<Rightarrow> int \<Rightarrow> bool" where
  "inside r mx my \<longleftrightarrow>
     mx \<ge> rect_x r \<and> mx \<le> rect_x r + rect_w r \<and> my \<ge> rect_y r \<and> my \<le> rect_y r + rect_h r"

text \<open>
  The branches of the keys A and D, the same in both releases. \<open>ticks k\<close> is the value
  of the call number \<open>k\<close> of \<open>SDL_GetTicks\<close> inside the function that takes \<open>ticks\<close>.
\<close>

definition press_a :: "(nat \<Rightarrow> 32 word) \<Rightarrow> Game \<Rightarrow> Game" where
  "press_a ticks g =
     g\<lparr>blueCar := (blueCar g)\<lparr>
          targetX := (if rect_x (destRect (blueCar g)) = LANE_1 then LANE_2 else LANE_1),
          moving := True, moveStartTime := ticks 0,
          rotating := True, rotationStartTime := ticks 1\<rparr>\<rparr>"

definition press_d :: "(nat \<Rightarrow> 32 word) \<Rightarrow> Game \<Rightarrow> Game" where
  "press_d ticks g =
     g\<lparr>redCar := (redCar g)\<lparr>
          targetX := (if rect_x (destRect (redCar g)) = LANE_4 then LANE_3 else LANE_4),
          moving := True, moveStartTime := ticks 0,
          rotating := True, rotationStartTime := ticks 1\<rparr>\<rparr>"

text \<open>The original release.\<close>

definition handleEvents_original :: "event \<Rightarrow> (nat \<Rightarrow> 32 word) \<Rightarrow> Game \<Rightarrow> Game" where
  "handleEvents_original ev ticks g =
     (case ev of
        SDL_QUIT \<Rightarrow> g\<lparr>isRunning := False\<rparr>
      | SDL_KEYDOWN k \<Rightarrow>
          (if currentState g = MAIN_MENU
           then g\<lparr>currentState := NORMAL_MODE, startTime := ticks 0\<rparr>
           else if currentState g = NORMAL_MODE
           then (if k = SDLK_ESCAPE then g\<lparr>currentState := MAIN_MENU\<rparr>
                 else if k = SDLK_a then press_a ticks g
                 else if k = SDLK_d then press_d ticks g
                 else g)
           else (if k = SDLK_r
                 then g\<lparr>currentState := NORMAL_MODE, score := 0, obstacles := [],
                        startTime := ticks 0, spawnRate := 80, obstacleSpeed := 6\<rparr>
                 else if k = SDLK_h
                 then g\<lparr>currentState := MAIN_MENU, score := 0, obstacles := [],
                        spawnRate := 80, obstacleSpeed := 6\<rparr>
                 else g))
      | SDL_MOUSEBUTTONDOWN mx my \<Rightarrow>
          (if currentState g = DEATH_SCREEN
           then (if inside restartButtonRect mx my
                 then g\<lparr>currentState := NORMAL_MODE, score := 0, obstacles := [],
                        startTime := ticks 0, spawnRate := 80, obstacleSpeed := 6\<rparr>
                 else if inside homeButtonRect mx my
                 then g\<lparr>currentState := MAIN_MENU, score := 0, obstacles := [],
                        spawnRate := 80, obstacleSpeed := 6\<rparr>
                 else g)
           else g)
      | SDL_other \<Rightarrow> g)"

text \<open>The revised release, with its \<open>resetCars\<close>.\<close>

definition resetCars :: "Game \<Rightarrow> Game" where
  "resetCars g =
     g\<lparr>blueCar := (blueCar g)\<lparr>destRect := \<lparr>rect_x = LANE_1, rect_y = SCREEN_HEIGHT - 100,
                                            rect_w = CAR_WIDTH, rect_h = CAR_HEIGHT\<rparr>\<rparr>,
       redCar := (redCar g)\<lparr>destRect := \<lparr>rect_x = LANE_4, rect_y = SCREEN_HEIGHT - 100,
                                          rect_w = CAR_WIDTH, rect_h = CAR_HEIGHT\<rparr>\<rparr>,
       score := 0, obstacles := [], spawnRate := 80, obstacleSpeed := 6\<rparr>"

definition handleEvents_revised :: "event \<Rightarrow> (nat \<Rightarrow> 32 word) \<Rightarrow> Game \<Rightarrow> Game" where
  "handleEvents_revised ev ticks g =
     (case ev of
        SDL_QUIT \<Rightarrow> g\<lparr>isRunning := False\<rparr>
      | SDL_KEYDOWN k \<Rightarrow>
          (if currentState g = MAIN_MENU
           then resetCars (g\<lparr>currentState := NORMAL_MODE, startTime := ticks 0\<rparr>)
           else if currentState g = NORMAL_MODE
           then (if k = SDLK_ESCAPE
                 then g\<lparr>currentState := MAIN_MENU, score := 0, obstacles := [],
                        spawnRate := 80, obstacleSpeed := 6\<rparr>
                 else if k = SDLK_a then press_a ticks g
                 else if k = SDLK_d then press_d ticks g
                 else g)
           else (if k = SDLK_r
                 then resetCars (g\<lparr>startTime := ticks 0, currentState := NORMAL_MODE\<rparr>)
                 else if k = SDLK_h
                 then resetCars (g\<lparr>startTime := ticks 0, currentState := MAIN_MENU\<rparr>)
                 else g))
      | SDL_MOUSEBUTTONDOWN mx my \<Rightarrow>
          (if currentState g = MAIN_MENU
           then resetCars (g\<lparr>currentState := NORMAL_MODE, startTime := ticks 0\<rparr>)
           else if currentState g = DEATH_SCREEN
           then (if inside restartButtonRect mx my
                 then resetCars (g\<lparr>currentState := NORMAL_MODE, startTime := ticks 0\<rparr>)
                 else if inside homeButtonRect mx my
                 then resetCars (g\<lparr>currentState := MAIN_MENU\<rparr>)
                 else g)
           else g)
      | SDL_other \<Rightarrow> g)"

definition handleEvents :: "release \<Rightarrow> event \<Rightarrow> (nat \<Rightarrow> 32 word) \<Rightarrow> Game \<Rightarrow> Game" where
  "handleEvents rel = (case rel of Original \<Rightarrow> handleEvents_original
                                 | Revised \<Rightarrow> handleEvents_revised)"

subsection \<open>update\<close>

definition updateMenuAnimation :: "Game \<Rightarrow> Game" where
  "updateMenuAnimation g =
     (let pos = playTextYPosition g + 1 * playTextDirection g;
          dir = (if pos \<le> initialPlayTextYPosition g - 10 \<or> pos \<ge> initialPlayTextYPosition g + 10
                 then playTextDirection g * (- 1) else playTextDirection g)
      in g\<lparr>playTextYPosition := pos, playTextDirection := dir,
            playTextRect1_y := pos, playTextRect2_y := pos + playTextRect1_h g\<rparr>)"

text \<open>
  One pass of \<open>update\<close>. The state is tested once, on entry. \<open>ticks 0\<close> is the clock
  value \<open>increaseDifficulty\<close> reads, \<open>ticks 1\<close> to \<open>ticks 4\<close> those the four
  animation updates read; \<open>lanes\<close>, \<open>coin\<close> and \<open>junk\<close> go to \<open>spawnObstacle\<close>,
  \<open>fl\<close> to \<open>updateMovement\<close>.
\<close>

definition update :: "release \<Rightarrow> int list \<Rightarrow> (nat \<Rightarrow> nat) \<Rightarrow> (nat \<Rightarrow> texture option)
    \<Rightarrow> (real \<Rightarrow> real) \<Rightarrow> (nat \<Rightarrow> 32 word) \<Rightarrow> Game \<Rightarrow> Game" where
  "update rel lanes coin junk fl ticks g =
     (if currentState g = NORMAL_MODE
      then (let g1 = updateObstacles g;
                g2 = checkCollision g1;
                g3 = increaseDifficulty rel (ticks 0) g2;
                g4 = spawnObstacle lanes coin junk g3;
                g5 = g4\<lparr>blueCar :=
                          updateMovement fl (ticks 2) (updateRotation (ticks 1) (blueCar g4))\<rparr>;
                g6 = g5\<lparr>redCar :=
                          updateMovement fl (ticks 4) (updateRotation (ticks 3) (redCar g5))\<rparr>
            in g6)
      else if currentState g = MAIN_MENU then updateMenuAnimation g
      else g)"

subsection \<open>init\<close>

text \<open>
  The game after a successful \<open>init\<close>: the member initialisers (score 0, spawn rate 80,
  speed 6, high score 0, no animation running), the rectangles \<open>loadAssets\<close> sets, the
  state and the clock, then \<open>loadHighscore\<close>. \<open>textH\<close> is the height of the rendered
  menu line. The time stamps and \<open>targetX\<close> of a car have no initialiser; they are read
  only after a key press has written them and are put to 0 here.
\<close>

definition new_Car :: "texture \<Rightarrow> int \<Rightarrow> Car" where
  "new_Car t lane =
     \<lparr>texture = Some t,
      destRect = \<lparr>rect_x = lane, rect_y = SCREEN_HEIGHT - 100, rect_w = CAR_WIDTH, rect_h = CAR_HEIGHT\<rparr>,
      collected = False, angle = 0, rotating = False, rotationStartTime = 0,
      moving = False, targetX = 0, moveStartTime = 0\<rparr>"

definition init :: "32 word \<Rightarrow> int \<Rightarrow> 32 word option \<Rightarrow> bool \<Rightarrow> Game" where
  "init now textH file writable =
     loadHighscore
       \<lparr>isRunning = True, currentState = MAIN_MENU, obstacles = [],
        blueCar = new_Car carBlue LANE_1, redCar = new_Car carRed LANE_4,
        startTime = now, score = 0, spawnRate = 80, obstacleSpeed = 6, highscore = 0,
        playTextYPosition = SCREEN_HEIGHT div 2 - textH, playTextDirection = 1,
        initialPlayTextYPosition = SCREEN_HEIGHT div 2 - textH,
        playTextRect1_y = SCREEN_HEIGHT div 2 - textH, playTextRect1_h = textH,
        playTextRect2_y = SCREEN_HEIGHT div 2,
        patternTimer = 0, lastIncreaseTime = 0,
        playerDat = file, playerDatWritable = writable, saveCalls = 0, played = []\<rparr>"

subsection \<open>Vocabulary of the properties\<close>

text \<open>
  The loop body of \<open>spawnObstacle\<close> in two parts, for the proofs: the kind choice of
  iteration \<open>i\<close> and the entity it pushes. \<open>first_new\<close> and \<open>second_new\<close> are the
  entities of the two iterations.
\<close>

definition pick :: "int list \<Rightarrow> (nat \<Rightarrow> nat) \<Rightarrow> (nat \<Rightarrow> texture option) \<Rightarrow> nat \<Rightarrow> spawn_flags
    \<Rightarrow> texture option \<times> spawn_flags" where
  "pick lanes coin junk i f =
     (if lanes ! i = 0 \<or> lanes ! i = 1 then choose_red (junk i) f (coin i)
      else choose_blue (junk i) f (coin i))"

definition placed :: "int list \<Rightarrow> nat \<Rightarrow> texture option \<Rightarrow> Entity list \<Rightarrow> Entity" where
  "placed lanes i t obs =
     \<lparr>texture = t,
      destRect = \<lparr>rect_x = (if lanes ! i = 0 \<or> lanes ! i = 1
                             then (if lanes ! i = 0 then LANE_3 else LANE_4)
                             else (if lanes ! i = 2 then LANE_1 else LANE_2)),
                   rect_y = spawn_y t obs, rect_w = OBSTACLE_SIZE, rect_h = OBSTACLE_SIZE\<rparr>,
      collected = False\<rparr>"

definition first_new :: "int list \<Rightarrow> (nat \<Rightarrow> nat) \<Rightarrow> (nat \<Rightarrow> texture option) \<Rightarrow> Entity list
    \<Rightarrow> Entity" where
  "first_new lanes coin junk obs = placed lanes 0 (fst (pick lanes coin junk 0 no_flags)) obs"

definition second_new :: "int list \<Rightarrow> (nat \<Rightarrow> nat) \<Rightarrow> (nat \<Rightarrow> texture option) \<Rightarrow> Entity list
    \<Rightarrow> Entity" where
  "second_new lanes coin junk obs =
     placed lanes 1 (fst (pick lanes coin junk 1 (snd (pick lanes coin junk 0 no_flags))))
       (obs @ [first_new lanes coin junk obs])"

text \<open>The four obstacle kinds.\<close>

definition obstacle_kind :: "texture option \<Rightarrow> bool" where
  "obstacle_kind t \<longleftrightarrow>
     t = Some redBox \<or> t = Some blueBox \<or> t = Some redCircle \<or> t = Some blueCircle"

text \<open>An obstacle of kind \<open>k\<close> at \<open>(px, py)\<close>, for the worked instances.\<close>

definition obstacle_at :: "texture \<Rightarrow> int \<Rightarrow> int \<Rightarrow> Entity" where
  "obstacle_at k px py =
     \<lparr>texture = Some k,
      destRect = \<lparr>rect_x = px, rect_y = py, rect_w = OBSTACLE_SIZE, rect_h = OBSTACLE_SIZE\<rparr>,
      collected = False\<rparr>"

text \<open>The sides of the road, the colours of the kinds, and the lane of a shuffled value.\<close>

definition red_side_x :: "int \<Rightarrow> bool" where
  "red_side_x px \<longleftrightarrow> px = LANE_3 \<or> px = LANE_4"

definition blue_side_x :: "int \<Rightarrow> bool" where
  "blue_side_x px \<longleftrightarrow> px = LANE_1 \<or> px = LANE_2"

definition red_kind :: "Entity \<Rightarrow> bool" where
  "red_kind e \<longleftrightarrow> texture e = Some redBox \<or> texture e = Some redCircle"

definition blue_kind :: "Entity \<Rightarrow> bool" where
  "blue_kind e \<longleftrightarrow> texture e = Some blueBox \<or> texture e = Some blueCircle"

definition lane_x :: "int \<Rightarrow> int" where
  "lane_x v = (if v = 0 then LANE_3 else if v = 1 then LANE_4 else if v = 2 then LANE_1 else LANE_2)"

text \<open>
  For \<open>updateObstacles\<close>: the obstacles after the move, the test of the predicate, the
  entities the call removes, and a miss (a removed circle that was not collected).
\<close>

definition advanced :: "Game \<Rightarrow> Entity list" where
  "advanced g = map (move_down (obstacleSpeed g)) (obstacles g)"

definition below_screen :: "Entity \<Rightarrow> bool" where
  "below_screen e \<longleftrightarrow> rect_y (destRect e) > SCREEN_HEIGHT"

definition culled :: "Game \<Rightarrow> Entity list" where
  "culled g = filter below_screen (advanced g)"

definition is_circle :: "Entity \<Rightarrow> bool" where
  "is_circle e \<longleftrightarrow> texture e = Some redCircle \<or> texture e = Some blueCircle"

definition missed :: "Entity \<Rightarrow> bool" where
  "missed e \<longleftrightarrow> below_screen e \<and> is_circle e \<and> \<not> collected e"

text \<open>
  For \<open>checkCollision\<close>: an uncollected circle that intersects the car of its colour, a
  box that intersects the car of its colour, the sound either one triggers, the effect of
  one loop iteration on the game, and the game after the loop and the erase.
\<close>

definition pickup :: "Game \<Rightarrow> Entity \<Rightarrow> bool" where
  "pickup g ob \<longleftrightarrow>
     \<not> collected ob \<and>
     (texture ob = Some redCircle \<and> SDL_HasIntersection (destRect (redCar g)) (destRect ob) \<or>
      texture ob = Some blueCircle \<and> SDL_HasIntersection (destRect (blueCar g)) (destRect ob))"

definition lethal :: "Game \<Rightarrow> Entity \<Rightarrow> bool" where
  "lethal g ob \<longleftrightarrow>
     texture ob = Some redBox \<and> SDL_HasIntersection (destRect (redCar g)) (destRect ob) \<or>
     texture ob = Some blueBox \<and> SDL_HasIntersection (destRect (blueCar g)) (destRect ob)"

definition hit_sounds :: "Game \<Rightarrow> Entity \<Rightarrow> sound list" where
  "hit_sounds g ob =
     (if lethal g ob then [deathSound] else if pickup g ob then [circlePickupSound] else [])"

definition hit :: "Game \<Rightarrow> Entity \<Rightarrow> Game \<Rightarrow> Game" where
  "hit g0 ob g =
     g\<lparr>score := score g + (if pickup g0 ob then 1 else 0),
       played := played g @ hit_sounds g0 ob,
       currentState := (if lethal g0 ob then DEATH_SCREEN else currentState g)\<rparr>"

definition collided :: "Game \<Rightarrow> Game" where
  "collided g =
     g\<lparr>score := score g + int (length (filter (pickup g) (obstacles g))),
       played := played g @ concat (map (hit_sounds g) (obstacles g)),
       currentState := (if \<exists>ob \<in> set (obstacles g). lethal g ob then DEATH_SCREEN
                        else currentState g),
       obstacles := filter (\<lambda>e. \<not> collected e \<and> \<not> pickup g e) (obstacles g)\<rparr>"

text \<open>
  States for the worked instances: a session just started from the menu with a key press
  at tick 5000, the same with a given score and obstacle list, and a blue car in the
  middle of a lane change begun at tick 7000.
\<close>

definition started :: "release \<Rightarrow> Game" where
  "started rel = handleEvents rel (SDL_KEYDOWN SDLK_other) (\<lambda>k. 5000) (init 1000 20 None True)"

definition playing :: "int \<Rightarrow> Entity list \<Rightarrow> Game" where
  "playing sc obs = (started Revised)\<lparr>score := sc, obstacles := obs\<rparr>"

definition turning_car :: Car where
  "turning_car = (new_Car carBlue LANE_1)\<lparr>rotating := True, rotationStartTime := 7000,
       moving := True, targetX := LANE_2, moveStartTime := 7000\<rparr>"

section \<open>Theorems\<close>

subsection \<open>Constants and the shape of a spawn\<close>

lemma const_values:
  "LANE_1 = 30" "LANE_2 = 131" "LANE_3 = 232" "LANE_4 = 333" "CAR_HEIGHT = 65" "CAR_WIDTH = 40"
  "OBSTACLE_SIZE = 40" "SCREEN_HEIGHT = 720" "SCREEN_WIDTH = 405"
  by (simp_all add: SCREEN_WIDTH_def SCREEN_HEIGHT_def CAR_WIDTH_def CAR_HEIGHT_def
        LANE_WIDTH_def LANE_1_def LANE_2_def LANE_3_def LANE_4_def OBSTACLE_SIZE_def)

lemma spawn_iter_eq:
  "spawn_iter lanes coin junk i (f, obs) =
     (snd (pick lanes coin junk i f),
      obs @ [placed lanes i (fst (pick lanes coin junk i f)) obs])"
  by (simp add: spawn_iter_def pick_def placed_def Let_def split: prod.splits)

lemma spawnObstacle_fires:
  "patternTimer g = 0 \<Longrightarrow>
   obstacles (spawnObstacle lanes coin junk g) =
     obstacles g @ [first_new lanes coin junk (obstacles g),
                    second_new lanes coin junk (obstacles g)]"
  by (simp add: spawnObstacle_def spawn_iter_eq first_new_def second_new_def)

lemma spawned_fires:
  "patternTimer g = 0 \<Longrightarrow>
   spawned lanes coin junk g =
     [first_new lanes coin junk (obstacles g), second_new lanes coin junk (obstacles g)]"
  by (simp add: spawned_def spawnObstacle_fires)

lemma placed_sel:
  "texture (placed lanes i t obs) = t"
  "rect_x (destRect (placed lanes i t obs)) =
     (if lanes ! i = 0 \<or> lanes ! i = 1 then (if lanes ! i = 0 then LANE_3 else LANE_4)
      else (if lanes ! i = 2 then LANE_1 else LANE_2))"
  "rect_y (destRect (placed lanes i t obs)) = spawn_y t obs"
  by (simp_all add: placed_def)

text \<open>The first entity never reads the indeterminate value: no flag is set yet.\<close>

lemma first_kind:
  "texture (first_new lanes coin junk obs) =
     (if lanes ! 0 = 0 \<or> lanes ! 0 = 1
      then (if coin 0 mod 2 = 0 then Some redBox else Some redCircle)
      else (if coin 0 mod 2 = 0 then Some blueBox else Some blueCircle))"
  by (simp add: first_new_def placed_sel pick_def choose_red_def choose_blue_def no_flags_def)

text \<open>
  The second entity reads it in one case only: same side as the first, the first a circle,
  and the second \<open>rand()\<close> odd.
\<close>

lemma second_kind:
  "texture (second_new lanes coin junk obs) =
     (if lanes ! 1 = 0 \<or> lanes ! 1 = 1
      then (if lanes ! 0 = 0 \<or> lanes ! 0 = 1
            then (if coin 0 mod 2 = 0 then Some redCircle
                  else if coin 1 mod 2 = 0 then Some redBox else junk 1)
            else (if coin 1 mod 2 = 0 then Some redBox else Some redCircle))
      else (if lanes ! 0 = 0 \<or> lanes ! 0 = 1
            then (if coin 1 mod 2 = 0 then Some blueBox else Some blueCircle)
            else (if coin 0 mod 2 = 0 then Some blueCircle
                  else if coin 1 mod 2 = 0 then Some blueBox else junk 1)))"
  by (simp add: second_new_def placed_sel pick_def choose_red_def choose_blue_def no_flags_def)

lemma perm_first_two:
  assumes "distinct lanes" and "set lanes = {0, 1, 2, 3::int}"
  shows "lanes ! 0 \<in> {0, 1, 2, 3} \<and> lanes ! 1 \<in> {0, 1, 2, 3} \<and> lanes ! 0 \<noteq> lanes ! 1"
proof -
  have "length lanes = card (set lanes)"
    using assms(1) by (simp add: distinct_card)
  then have len: "length lanes = 4"
    using assms(2) by simp
  then have "lanes ! 0 \<in> set lanes" "lanes ! 1 \<in> set lanes"
    by simp_all
  moreover have "lanes ! 0 \<noteq> lanes ! 1"
    using assms(1) len by (simp add: nth_eq_iff_index_eq)
  ultimately show ?thesis
    using assms(2) by simp
qed

lemma count_kind_pair:
  "count_kind k [a, b] = (if texture a = Some k then 1 else 0) + (if texture b = Some k then 1 else 0)"
  by (simp add: count_kind_def)

subsection \<open>C1: one of each kind per spawn\<close>

text \<open>
  Whatever the indeterminate value is, a call never creates two boxes of one colour; and it
  creates at most one circle of each colour unless that value is a circle handle.
\<close>

lemma spawnObstacle_one_box_per_colour:
  "patternTimer g = 0 \<Longrightarrow>
   count_kind redBox (spawned lanes coin junk g) \<le> 1 \<and>
   count_kind blueBox (spawned lanes coin junk g) \<le> 1"
  by (simp add: spawned_fires count_kind_pair first_kind second_kind)

lemma spawnObstacle_one_circle_per_colour:
  "patternTimer g = 0 \<Longrightarrow> junk 1 \<noteq> Some redCircle \<Longrightarrow> junk 1 \<noteq> Some blueCircle \<Longrightarrow>
   count_kind redCircle (spawned lanes coin junk g) \<le> 1 \<and>
   count_kind blueCircle (spawned lanes coin junk g) \<le> 1"
  by (simp add: spawned_fires count_kind_pair first_kind second_kind)

text \<open>
  C1 fails on the code in its circle part. The flags \<open>redCircleSpawned\<close> and
  \<open>blueCircleSpawned\<close> are there to keep a second circle of the colour out, but when they
  stop the assignment nothing else is assigned, and the entity is pushed with whatever its
  \<open>texture\<close> member held. With the shuffle leaving \<open>[0, 1, 2, 3]\<close> and both \<open>rand()\<close>
  values odd, the first entity is a red circle on LANE_3; the second, on LANE_4, keeps the
  value found in the member, which in the compiled program is the handle of the first:
  the call creates two red circles, the second shifted up by the gap rule for circles.
\<close>

theorem spawnObstacle_two_red_circles:
  "patternTimer (init 1000 20 None True) = 0 \<and>
   spawned [0, 1, 2, 3] (\<lambda>i. 1) (\<lambda>i. Some redCircle) (init 1000 20 None True)
     = [obstacle_at redCircle LANE_3 (- 40), obstacle_at redCircle LANE_4 (- 115)] \<and>
   count_kind redCircle
     (spawned [0, 1, 2, 3] (\<lambda>i. 1) (\<lambda>i. Some redCircle) (init 1000 20 None True)) = 2"
proof -
  have e: "spawned [0, 1, 2, 3] (\<lambda>i. 1) (\<lambda>i. Some redCircle) (init 1000 20 None True)
             = [obstacle_at redCircle LANE_3 (- 40), obstacle_at redCircle LANE_4 (- 115)]"
    by (simp add: init_def loadHighscore_def spawned_def spawnObstacle_def spawn_iter_def Let_def
          choose_red_def choose_blue_def no_flags_def obstacle_at_def spawn_y_def shifted_y_def
          const_values)
  show ?thesis
    unfolding e by (simp add: init_def loadHighscore_def count_kind_def obstacle_at_def)
qed

subsection \<open>C2: the pair of a spawn\<close>

text \<open>
  C2, as stated, fails: the two entities of a call need not lie on different sides. With
  the shuffle leaving \<open>[0, 1, 2, 3]\<close>, the first \<open>rand()\<close> even and the second odd, the
  call creates a red box on LANE_3 and a red circle on LANE_4: both on the red side, none
  on the blue side. (The indeterminate value is not read at this input.)
\<close>

theorem spawnObstacle_same_side_counterexample:
  "patternTimer (init 1000 20 None True) = 0 \<and>
   distinct [0, 1, 2, 3 :: int] \<and> set [0, 1, 2, 3 :: int] = {0, 1, 2, 3} \<and>
   spawned [0, 1, 2, 3] (\<lambda>i. i) (\<lambda>i. None) (init 1000 20 None True)
     = [obstacle_at redBox LANE_3 (- 40), obstacle_at redCircle LANE_4 (- 115)] \<and>
   red_side_x LANE_3 \<and> red_side_x LANE_4 \<and> \<not> blue_side_x LANE_3 \<and> \<not> blue_side_x LANE_4"
proof -
  have e: "spawned [0, 1, 2, 3] (\<lambda>i. i) (\<lambda>i. None) (init 1000 20 None True)
             = [obstacle_at redBox LANE_3 (- 40), obstacle_at redCircle LANE_4 (- 115)]"
    by (simp add: init_def loadHighscore_def spawned_def spawnObstacle_def spawn_iter_def Let_def
          choose_red_def choose_blue_def no_flags_def obstacle_at_def spawn_y_def shifted_y_def
          const_values)
  show ?thesis
    unfolding e
    by (simp add: init_def loadHighscore_def red_side_x_def blue_side_x_def const_values)
qed

text \<open>
  C2, amended. A call of \<open>spawnObstacle\<close> whose countdown is zero appends exactly two
  entities, the \<open>i\<close>-th on the lane of the \<open>i\<close>-th shuffled value (0 and 1 are LANE_3
  and LANE_4 on the red side, 2 and 3 are LANE_1 and LANE_2 on the blue side), so on two
  different lanes, possibly of the same side. The first entity always gets a kind of the
  colour of its side. The second gets a kind of the colour of its side when the two lie on
  different sides, and also when they lie on the same side and the first is a box or the
  second \<open>rand()\<close> is even. This holds whatever the indeterminate value of the member is.
\<close>

theorem spawnObstacle_pair:
  assumes "patternTimer g = 0" and "distinct lanes" and "set lanes = {0, 1, 2, 3}"
  shows "obstacles (spawnObstacle lanes coin junk g) = obstacles g @ spawned lanes coin junk g \<and>
         length (spawned lanes coin junk g) = 2 \<and>
         (let e1 = spawned lanes coin junk g ! 0; e2 = spawned lanes coin junk g ! 1;
              x1 = rect_x (destRect e1); x2 = rect_x (destRect e2)
          in x1 = lane_x (lanes ! 0) \<and> x2 = lane_x (lanes ! 1) \<and> x1 \<noteq> x2 \<and>
             (red_side_x x1 \<and> red_kind e1 \<or> blue_side_x x1 \<and> blue_kind e1) \<and>
             (red_side_x x1 \<and> blue_side_x x2 \<longrightarrow> blue_kind e2) \<and>
             (blue_side_x x1 \<and> red_side_x x2 \<longrightarrow> red_kind e2) \<and>
             (red_side_x x1 \<and> red_side_x x2 \<and> (texture e1 = Some redBox \<or> coin 1 mod 2 = 0)
                \<longrightarrow> red_kind e2) \<and>
             (blue_side_x x1 \<and> blue_side_x x2 \<and> (texture e1 = Some blueBox \<or> coin 1 mod 2 = 0)
                \<longrightarrow> blue_kind e2))"
proof -
  let ?e1 = "first_new lanes coin junk (obstacles g)"
  let ?e2 = "second_new lanes coin junk (obstacles g)"
  have p: "lanes ! 0 \<in> {0, 1, 2, 3} \<and> lanes ! 1 \<in> {0, 1, 2, 3} \<and> lanes ! 0 \<noteq> lanes ! 1"
    using assms(2,3) by (rule perm_first_two)
  have sp: "spawned lanes coin junk g = [?e1, ?e2]"
    using assms(1) by (rule spawned_fires)
  have x1: "rect_x (destRect ?e1) = lane_x (lanes ! 0)"
    using p by (auto simp add: first_new_def placed_sel lane_x_def)
  have x2: "rect_x (destRect ?e2) = lane_x (lanes ! 1)"
    using p by (auto simp add: second_new_def placed_sel lane_x_def)
  have ne: "lane_x (lanes ! 0) \<noteq> lane_x (lanes ! 1)"
    using p by (auto simp add: lane_x_def const_values)
  have k1: "red_side_x (lane_x (lanes ! 0)) \<and> red_kind ?e1
            \<or> blue_side_x (lane_x (lanes ! 0)) \<and> blue_kind ?e1"
    using p by (auto simp add: first_kind lane_x_def red_side_x_def blue_side_x_def
                  red_kind_def blue_kind_def)
  have k2: "red_side_x (lane_x (lanes ! 0)) \<and> blue_side_x (lane_x (lanes ! 1)) \<longrightarrow> blue_kind ?e2"
    using p by (auto simp add: second_kind lane_x_def red_side_x_def blue_side_x_def
                  blue_kind_def const_values)
  have k3: "blue_side_x (lane_x (lanes ! 0)) \<and> red_side_x (lane_x (lanes ! 1)) \<longrightarrow> red_kind ?e2"
    using p by (auto simp add: second_kind lane_x_def red_side_x_def blue_side_x_def
                  red_kind_def const_values)
  have k4: "red_side_x (lane_x (lanes ! 0)) \<and> red_side_x (lane_x (lanes ! 1))
              \<and> (texture ?e1 = Some redBox \<or> coin 1 mod 2 = 0) \<longrightarrow> red_kind ?e2"
    using p by (auto simp add: first_kind second_kind lane_x_def red_side_x_def red_kind_def
                  const_values)
  have k5: "blue_side_x (lane_x (lanes ! 0)) \<and> blue_side_x (lane_x (lanes ! 1))
              \<and> (texture ?e1 = Some blueBox \<or> coin 1 mod 2 = 0) \<longrightarrow> blue_kind ?e2"
    using p by (auto simp add: first_kind second_kind lane_x_def blue_side_x_def blue_kind_def
                  const_values)
  show ?thesis
    using assms(1) x1 x2 ne k1 k2 k3 k4 k5 by (simp add: sp spawnObstacle_fires Let_def)
qed

theorem spawnObstacle_pair_witness:
  "patternTimer (init 1000 20 None True) = 0 \<and>
   distinct [2, 0, 3, 1 :: int] \<and> set [2, 0, 3, 1 :: int] = {0, 1, 2, 3} \<and>
   length (spawned [2, 0, 3, 1] (\<lambda>i. i) (\<lambda>i. None) (init 1000 20 None True)) = 2 \<and>
   rect_x (destRect (spawned [2, 0, 3, 1] (\<lambda>i. i) (\<lambda>i. None) (init 1000 20 None True) ! 0))
     = LANE_1 \<and>
   rect_x (destRect (spawned [2, 0, 3, 1] (\<lambda>i. i) (\<lambda>i. None) (init 1000 20 None True) ! 1))
     = LANE_3 \<and>
   blue_side_x LANE_1 \<and> red_side_x LANE_3 \<and>
   blue_kind (spawned [2, 0, 3, 1] (\<lambda>i. i) (\<lambda>i. None) (init 1000 20 None True) ! 0) \<and>
   red_kind (spawned [2, 0, 3, 1] (\<lambda>i. i) (\<lambda>i. None) (init 1000 20 None True) ! 1) \<and>
   distinct [0, 1, 2, 3 :: int] \<and> set [0, 1, 2, 3 :: int] = {0, 1, 2, 3} \<and>
   rect_x (destRect (spawned [0, 1, 2, 3] (\<lambda>i. i) (\<lambda>i. None) (init 1000 20 None True) ! 0))
     = LANE_3 \<and>
   rect_x (destRect (spawned [0, 1, 2, 3] (\<lambda>i. i) (\<lambda>i. None) (init 1000 20 None True) ! 1))
     = LANE_4 \<and>
   red_side_x LANE_4 \<and>
   texture (spawned [0, 1, 2, 3] (\<lambda>i. i) (\<lambda>i. None) (init 1000 20 None True) ! 0)
     = Some redBox \<and>
   red_kind (spawned [0, 1, 2, 3] (\<lambda>i. i) (\<lambda>i. None) (init 1000 20 None True) ! 1)"
proof -
  let ?g = "init 1000 20 None True"
  have h: "patternTimer ?g = 0"
    by (simp add: init_def loadHighscore_def)
  have d: "distinct [2, 0, 3, 1 :: int]" and s: "set [2, 0, 3, 1 :: int] = {0, 1, 2, 3}"
    by auto
  have d': "distinct [0, 1, 2, 3 :: int]" and s': "set [0, 1, 2, 3 :: int] = {0, 1, 2, 3}"
    by auto
  have b: "texture (spawned [0, 1, 2, 3] (\<lambda>i. i) (\<lambda>i. None) ?g ! 0) = Some redBox"
    by (simp add: spawned_fires [OF h] first_kind)
  have sides: "blue_side_x LANE_1" "red_side_x LANE_3" "red_side_x LANE_4"
    by (simp_all add: red_side_x_def blue_side_x_def)
  have one: "rect_x (destRect (spawned [2, 0, 3, 1] (\<lambda>i. i) (\<lambda>i. None) ?g ! 0)) = LANE_1 \<and>
             rect_x (destRect (spawned [2, 0, 3, 1] (\<lambda>i. i) (\<lambda>i. None) ?g ! 1)) = LANE_3 \<and>
             length (spawned [2, 0, 3, 1] (\<lambda>i. i) (\<lambda>i. None) ?g) = 2 \<and>
             blue_kind (spawned [2, 0, 3, 1] (\<lambda>i. i) (\<lambda>i. None) ?g ! 0) \<and>
             red_kind (spawned [2, 0, 3, 1] (\<lambda>i. i) (\<lambda>i. None) ?g ! 1)"
    using spawnObstacle_pair [OF h d s, of "\<lambda>i. i" "\<lambda>i. None"]
    by (auto simp add: Let_def lane_x_def red_side_x_def blue_side_x_def const_values)
  have two: "rect_x (destRect (spawned [0, 1, 2, 3] (\<lambda>i. i) (\<lambda>i. None) ?g ! 0)) = LANE_3 \<and>
             rect_x (destRect (spawned [0, 1, 2, 3] (\<lambda>i. i) (\<lambda>i. None) ?g ! 1)) = LANE_4 \<and>
             red_kind (spawned [0, 1, 2, 3] (\<lambda>i. i) (\<lambda>i. None) ?g ! 1)"
    using spawnObstacle_pair [OF h d' s', of "\<lambda>i. i" "\<lambda>i. None"] b
    by (auto simp add: Let_def lane_x_def red_side_x_def blue_side_x_def const_values)
  show ?thesis
    using h d s d' s' b sides one two by simp
qed

subsection \<open>C7: the gap to the entity spawned before\<close>

lemma spawn_y_gap:
  assumes "obs \<noteq> []" and "obstacle_kind t"
  shows "CAR_HEIGHT + 10 \<le> rect_y (destRect (last obs)) - spawn_y t obs"
  using assms by (auto simp add: obstacle_kind_def spawn_y_def shifted_y_def Let_def const_values)

lemma first_obstacle_kind: "obstacle_kind (texture (first_new lanes coin junk obs))"
  by (simp add: first_kind obstacle_kind_def)

text \<open>
  C7. When \<open>spawnObstacle\<close> creates an entity and the obstacle list is not empty at that
  moment, the new entity is placed at least \<open>CAR_HEIGHT + 10\<close> pixels above the last
  entity of the list, which is the entity spawned immediately before it (the list is in
  spawn order). For the first entity of a call against the last surviving entity of
  earlier calls this holds without condition, whatever the kinds and lanes of the two, so
  in particular for two entities of the same type on overlapping lanes. For the second
  entity of a call against the first (the two are never on the same lane) it holds when
  the second carries one of the four obstacle kinds.
\<close>

theorem spawnObstacle_min_gap:
  assumes "patternTimer g = 0"
  shows "(obstacles g \<noteq> [] \<longrightarrow>
            CAR_HEIGHT + 10 \<le> rect_y (destRect (last (obstacles g)))
                                 - rect_y (destRect (spawned lanes coin junk g ! 0))) \<and>
         (obstacle_kind (texture (spawned lanes coin junk g ! 1)) \<longrightarrow>
            CAR_HEIGHT + 10 \<le> rect_y (destRect (spawned lanes coin junk g ! 0))
                                 - rect_y (destRect (spawned lanes coin junk g ! 1)))"
proof -
  let ?e1 = "first_new lanes coin junk (obstacles g)"
  let ?e2 = "second_new lanes coin junk (obstacles g)"
  have sp: "spawned lanes coin junk g = [?e1, ?e2]"
    using assms by (rule spawned_fires)
  have a: "CAR_HEIGHT + 10 \<le> rect_y (destRect (last (obstacles g))) - rect_y (destRect ?e1)"
    if "obstacles g \<noteq> []"
    using spawn_y_gap [OF that first_obstacle_kind [of lanes coin junk "obstacles g"]]
    by (simp add: first_new_def placed_sel)
  have b: "CAR_HEIGHT + 10 \<le> rect_y (destRect ?e1) - rect_y (destRect ?e2)"
    if "obstacle_kind (texture ?e2)"
  proof -
    have "CAR_HEIGHT + 10 \<le> rect_y (destRect (last (obstacles g @ [?e1])))
                              - spawn_y (texture ?e2) (obstacles g @ [?e1])"
      using that by (intro spawn_y_gap) simp_all
    then show ?thesis
      by (simp add: second_new_def placed_sel)
  qed
  show ?thesis
    using a b by (simp add: sp)
qed

theorem spawnObstacle_min_gap_witness:
  "patternTimer ((init 1000 20 None True)\<lparr>obstacles := [obstacle_at redBox LANE_3 10]\<rparr>) = 0 \<and>
   obstacles ((init 1000 20 None True)\<lparr>obstacles := [obstacle_at redBox LANE_3 10]\<rparr>) \<noteq> [] \<and>
   rect_y (destRect (last (obstacles
     ((init 1000 20 None True)\<lparr>obstacles := [obstacle_at redBox LANE_3 10]\<rparr>)))) = 10 \<and>
   obstacle_kind (texture (spawned [0, 2, 1, 3] (\<lambda>i. 0) (\<lambda>i. None)
     ((init 1000 20 None True)\<lparr>obstacles := [obstacle_at redBox LANE_3 10]\<rparr>) ! 1)) \<and>
   rect_y (destRect (spawned [0, 2, 1, 3] (\<lambda>i. 0) (\<lambda>i. None)
     ((init 1000 20 None True)\<lparr>obstacles := [obstacle_at redBox LANE_3 10]\<rparr>) ! 0)) = - 65 \<and>
   rect_y (destRect (spawned [0, 2, 1, 3] (\<lambda>i. 0) (\<lambda>i. None)
     ((init 1000 20 None True)\<lparr>obstacles := [obstacle_at redBox LANE_3 10]\<rparr>) ! 1)) = - 140 \<and>
   CAR_HEIGHT + 10 = 75"
proof -
  let ?g = "(init 1000 20 None True)\<lparr>obstacles := [obstacle_at redBox LANE_3 10]\<rparr>"
  have h: "patternTimer ?g = 0"
    by (simp add: init_def loadHighscore_def)
  have e: "spawned [0, 2, 1, 3] (\<lambda>i. 0) (\<lambda>i. None) ?g =
             [obstacle_at redBox LANE_3 (- 65), obstacle_at blueBox LANE_1 (- 140)]"
    by (simp add: init_def loadHighscore_def spawned_def spawnObstacle_def spawn_iter_def Let_def
          choose_red_def choose_blue_def no_flags_def obstacle_at_def spawn_y_def shifted_y_def
          const_values)
  have o: "obstacles ?g = [obstacle_at redBox LANE_3 10]"
    by simp
  show ?thesis
    using spawnObstacle_min_gap [OF h, of "[0, 2, 1, 3]" "\<lambda>i. 0" "\<lambda>i. None"] h
    unfolding e o by (simp add: obstacle_at_def obstacle_kind_def const_values)
qed

subsection \<open>The worked states\<close>

lemma init_sel:
  "spawnRate (init now textH file writable) = 80"
  "obstacleSpeed (init now textH file writable) = 6"
  "lastIncreaseTime (init now textH file writable) = 0"
  "patternTimer (init now textH file writable) = 0"
  "score (init now textH file writable) = 0"
  "obstacles (init now textH file writable) = []"
  "currentState (init now textH file writable) = MAIN_MENU"
  "saveCalls (init now textH file writable) = 0"
  "blueCar (init now textH file writable) = new_Car carBlue LANE_1"
  "redCar (init now textH file writable) = new_Car carRed LANE_4"
  by (simp_all add: init_def loadHighscore_def split: option.splits)

lemma started_Original:
  "started Original = (init 1000 20 None True)\<lparr>currentState := NORMAL_MODE, startTime := 5000\<rparr>"
  by (simp add: started_def handleEvents_def handleEvents_original_def init_def loadHighscore_def)

lemma started_Revised:
  "started Revised = (init 1000 20 None True)\<lparr>currentState := NORMAL_MODE, startTime := 5000\<rparr>"
  by (simp add: started_def handleEvents_def handleEvents_revised_def init_def loadHighscore_def
        resetCars_def new_Car_def)

lemma playing_sel:
  "currentState (playing sc obs) = NORMAL_MODE"
  "score (playing sc obs) = sc"
  "obstacles (playing sc obs) = obs"
  "obstacleSpeed (playing sc obs) = 6"
  "highscore (playing sc obs) = 0"
  "saveCalls (playing sc obs) = 0"
  "redCar (playing sc obs) = new_Car carRed LANE_4"
  "blueCar (playing sc obs) = new_Car carBlue LANE_1"
  by (simp_all add: playing_def started_Revised init_def loadHighscore_def)

subsection \<open>C6: updateObstacles\<close>

lemma off_screen_step:
  "off_screen e g =
     (below_screen e,
      if missed e then g\<lparr>played := played g @ [circleMissSound], currentState := DEATH_SCREEN\<rparr>
      else g)"
  by (simp add: off_screen_def missed_def below_screen_def is_circle_def)

lemma remove_if_Cons:
  "remove_if p (e # es) s =
     (if fst (p e s) then fst (remove_if p es (snd (p e s)))
      else e # fst (remove_if p es (snd (p e s))),
      snd (remove_if p es (snd (p e s))))"
  by (simp split: prod.splits)

lemma remove_if_off_screen:
  "remove_if off_screen es g =
     (filter (\<lambda>e. \<not> below_screen e) es,
      g\<lparr>played := played g @ replicate (length (filter missed es)) circleMissSound,
        currentState := (if \<exists>e \<in> set es. missed e then DEATH_SCREEN else currentState g)\<rparr>)"
proof (induction es arbitrary: g)
  case Nil
  show ?case by simp
next
  case (Cons e es)
  show ?case
    unfolding remove_if_Cons Cons.IH
    by (simp add: off_screen_step replicate_app_Cons_same)
qed

lemma updateObstacles_eq:
  "updateObstacles g =
     g\<lparr>played := played g @ replicate (length (filter missed (advanced g))) circleMissSound,
       currentState := (if \<exists>e \<in> set (advanced g). missed e then DEATH_SCREEN else currentState g),
       obstacles := filter (\<lambda>e. \<not> below_screen e) (advanced g)\<rparr>"
  by (simp add: updateObstacles_def remove_if_off_screen advanced_def)

lemma updateObstacles_sel:
  "score (updateObstacles g) = score g"
  "highscore (updateObstacles g) = highscore g"
  "saveCalls (updateObstacles g) = saveCalls g"
  by (simp_all add: updateObstacles_eq)

text \<open>
  C6. \<open>updateObstacles\<close> moves every obstacle down by the speed and removes exactly those
  that are then below the screen, so no obstacle that remains has a y-position above
  \<open>SCREEN_HEIGHT\<close>. The state after the call is \<open>DEATH_SCREEN\<close> when some removed entity
  is a circle with \<open>collected = false\<close>, and is the state before the call otherwise: from
  a state other than \<open>DEATH_SCREEN\<close> the call moves to \<open>DEATH_SCREEN\<close> if and only if it
  removed such a circle. The score is not changed.
\<close>

theorem updateObstacles_cull:
  "obstacles (updateObstacles g) = filter (\<lambda>e. \<not> below_screen e) (advanced g) \<and>
   (\<forall>e \<in> set (obstacles (updateObstacles g)). rect_y (destRect e) \<le> SCREEN_HEIGHT) \<and>
   currentState (updateObstacles g) =
     (if \<exists>e \<in> set (culled g). is_circle e \<and> \<not> collected e then DEATH_SCREEN else currentState g) \<and>
   (currentState g \<noteq> DEATH_SCREEN \<longrightarrow>
      (currentState (updateObstacles g) = DEATH_SCREEN) =
      (\<exists>e \<in> set (culled g). is_circle e \<and> \<not> collected e)) \<and>
   score (updateObstacles g) = score g"
  by (auto simp add: updateObstacles_eq culled_def missed_def below_screen_def)

theorem updateObstacles_cull_witness:
  "currentState (playing 2 [obstacle_at blueCircle LANE_1 718, obstacle_at redBox LANE_3 100])
     = NORMAL_MODE \<and>
   advanced (playing 2 [obstacle_at blueCircle LANE_1 718, obstacle_at redBox LANE_3 100])
     = [obstacle_at blueCircle LANE_1 724, obstacle_at redBox LANE_3 106] \<and>
   culled (playing 2 [obstacle_at blueCircle LANE_1 718, obstacle_at redBox LANE_3 100])
     = [obstacle_at blueCircle LANE_1 724] \<and>
   is_circle (obstacle_at blueCircle LANE_1 724) \<and> \<not> collected (obstacle_at blueCircle LANE_1 724) \<and>
   obstacles (updateObstacles
     (playing 2 [obstacle_at blueCircle LANE_1 718, obstacle_at redBox LANE_3 100]))
     = [obstacle_at redBox LANE_3 106] \<and>
   currentState (updateObstacles
     (playing 2 [obstacle_at blueCircle LANE_1 718, obstacle_at redBox LANE_3 100]))
     = DEATH_SCREEN \<and>
   score (updateObstacles
     (playing 2 [obstacle_at blueCircle LANE_1 718, obstacle_at redBox LANE_3 100])) = 2"
proof -
  let ?g = "playing 2 [obstacle_at blueCircle LANE_1 718, obstacle_at redBox LANE_3 100]"
  have a: "advanced ?g = [obstacle_at blueCircle LANE_1 724, obstacle_at redBox LANE_3 106]"
    by (simp add: advanced_def playing_sel move_down_def obstacle_at_def)
  have c: "culled ?g = [obstacle_at blueCircle LANE_1 724]"
    unfolding culled_def a by (simp add: below_screen_def obstacle_at_def const_values)
  have k: "is_circle (obstacle_at blueCircle LANE_1 724)" "\<not> collected (obstacle_at blueCircle LANE_1 724)"
    by (simp_all add: is_circle_def obstacle_at_def)
  show ?thesis
    using updateObstacles_cull [of ?g] k
    unfolding a c by (simp add: playing_sel below_screen_def obstacle_at_def const_values)
qed

subsection \<open>C10: checkCollision runs the whole list\<close>

lemma collide_both:
  "(case collide_red ob g of (ob1, g1) \<Rightarrow> collide_blue ob1 g1) =
     (if pickup g ob then ob\<lparr>collected := True\<rparr> else ob, hit g ob g)"
  by (auto simp add: collide_red_def collide_blue_def pickup_def lethal_def hit_def hit_sounds_def)

lemma collide_loop_Cons:
  "collide_loop (ob # obs) g =
     ((if pickup g ob then ob\<lparr>collected := True\<rparr> else ob) # fst (collide_loop obs (hit g ob g)),
      snd (collide_loop obs (hit g ob g)))"
proof -
  have "collide_loop (ob # obs) g =
          (case (case collide_red ob g of (ob1, g1) \<Rightarrow> collide_blue ob1 g1) of
             (ob2, g2) \<Rightarrow> (ob2 # fst (collide_loop obs g2), snd (collide_loop obs g2)))"
    by (simp split: prod.splits)
  then show ?thesis
    unfolding collide_both by simp
qed

lemma pickup_hit: "pickup (hit g0 ob g) = pickup g"
  by (rule ext) (simp add: pickup_def hit_def)

lemma lethal_hit: "lethal (hit g0 ob g) = lethal g"
  by (rule ext) (simp add: lethal_def hit_def)

lemma hit_sounds_hit: "hit_sounds (hit g0 ob g) = hit_sounds g"
  by (rule ext) (simp add: hit_sounds_def pickup_hit lethal_hit)

lemma hit_sel:
  "score (hit g0 ob g) = score g + (if pickup g0 ob then 1 else 0)"
  "played (hit g0 ob g) = played g @ hit_sounds g0 ob"
  "currentState (hit g0 ob g) = (if lethal g0 ob then DEATH_SCREEN else currentState g)"
  by (simp_all add: hit_def)

lemma hit_upd:
  "(hit g ob g)\<lparr>score := a, played := b, currentState := c\<rparr>
     = g\<lparr>score := a, played := b, currentState := c\<rparr>"
  by (simp add: hit_def)

lemma collide_loop_eq:
  "collide_loop obs g =
     (map (\<lambda>ob. if pickup g ob then ob\<lparr>collected := True\<rparr> else ob) obs,
      g\<lparr>score := score g + int (length (filter (pickup g) obs)),
        played := played g @ concat (map (hit_sounds g) obs),
        currentState := (if \<exists>ob \<in> set obs. lethal g ob then DEATH_SCREEN else currentState g)\<rparr>)"
proof (induction obs arbitrary: g)
  case Nil
  show ?case by simp
next
  case (Cons ob obs)
  show ?case
    unfolding collide_loop_Cons Cons.IH
    by (simp add: pickup_hit lethal_hit hit_sounds_hit hit_sel hit_upd)
qed

lemma mark_filter:
  "filter (\<lambda>e. \<not> collected e)
          (map (\<lambda>ob. if pickup g ob then ob\<lparr>collected := True\<rparr> else ob) obs)
     = filter (\<lambda>e. \<not> collected e \<and> \<not> pickup g e) obs"
  by (induction obs) auto

lemma checkCollision_eq:
  "checkCollision g =
     (if currentState (collided g) = DEATH_SCREEN \<and> score (collided g) > highscore g
      then saveHighscore ((collided g)\<lparr>highscore := score (collided g)\<rparr>)
      else collided g)"
  by (simp add: checkCollision_def collide_loop_eq mark_filter collided_def Let_def)

lemma collided_sel:
  "score (collided g) = score g + int (length (filter (pickup g) (obstacles g)))"
  "currentState (collided g) =
     (if \<exists>ob \<in> set (obstacles g). lethal g ob then DEATH_SCREEN else currentState g)"
  "obstacles (collided g) = filter (\<lambda>e. \<not> collected e \<and> \<not> pickup g e) (obstacles g)"
  "highscore (collided g) = highscore g"
  "saveCalls (collided g) = saveCalls g"
  by (simp_all add: collided_def)

lemma saveHighscore_sel:
  "score (saveHighscore g) = score g"
  "currentState (saveHighscore g) = currentState g"
  "obstacles (saveHighscore g) = obstacles g"
  "highscore (saveHighscore g) = highscore g"
  "saveCalls (saveHighscore g) = Suc (saveCalls g)"
  by (simp_all add: saveHighscore_def Let_def)

lemma checkCollision_sel:
  "score (checkCollision g) = score (collided g)"
  "currentState (checkCollision g) = currentState (collided g)"
  "obstacles (checkCollision g) = obstacles (collided g)"
  by (simp_all add: checkCollision_eq saveHighscore_sel)

text \<open>
  C10. \<open>checkCollision\<close> goes through the whole obstacle list whatever happens on the way:
  the score grows by the number of all uncollected circles that intersect the car of their
  colour, and the list that remains holds exactly the entities that were neither collected
  before nor picked up now, so none marked collected. In particular, when a box that
  intersects the car of its colour stands in the list, the state becomes \<open>DEATH_SCREEN\<close>,
  and every pickup behind it in the list is still counted in the score and still removed
  in the same call.
\<close>

theorem checkCollision_no_break:
  "score (checkCollision g) = score g + int (length (filter (pickup g) (obstacles g))) \<and>
   obstacles (checkCollision g) = filter (\<lambda>e. \<not> collected e \<and> \<not> pickup g e) (obstacles g) \<and>
   (\<forall>e \<in> set (obstacles (checkCollision g)). \<not> collected e) \<and>
   (obstacles g = before @ box # later \<and> lethal g box \<longrightarrow>
      currentState (checkCollision g) = DEATH_SCREEN \<and>
      score (checkCollision g) = score g + int (length (filter (pickup g) before))
                                   + int (length (filter (pickup g) later)) \<and>
      (\<forall>e \<in> set later. pickup g e \<longrightarrow> e \<notin> set (obstacles (checkCollision g))))"
proof -
  have "\<not> pickup g box" if "lethal g box"
    using that by (auto simp add: pickup_def lethal_def)
  then show ?thesis
    by (auto simp add: checkCollision_sel collided_sel)
qed

theorem checkCollision_no_break_witness:
  "obstacles (playing 0 [obstacle_at redBox LANE_4 600, obstacle_at blueCircle LANE_1 610,
                         obstacle_at redCircle LANE_3 300])
     = [] @ obstacle_at redBox LANE_4 600
          # [obstacle_at blueCircle LANE_1 610, obstacle_at redCircle LANE_3 300] \<and>
   lethal (playing 0 [obstacle_at redBox LANE_4 600, obstacle_at blueCircle LANE_1 610,
                      obstacle_at redCircle LANE_3 300]) (obstacle_at redBox LANE_4 600) \<and>
   pickup (playing 0 [obstacle_at redBox LANE_4 600, obstacle_at blueCircle LANE_1 610,
                      obstacle_at redCircle LANE_3 300]) (obstacle_at blueCircle LANE_1 610) \<and>
   currentState (checkCollision (playing 0 [obstacle_at redBox LANE_4 600,
      obstacle_at blueCircle LANE_1 610, obstacle_at redCircle LANE_3 300])) = DEATH_SCREEN \<and>
   score (checkCollision (playing 0 [obstacle_at redBox LANE_4 600,
      obstacle_at blueCircle LANE_1 610, obstacle_at redCircle LANE_3 300])) = 1 \<and>
   obstacles (checkCollision (playing 0 [obstacle_at redBox LANE_4 600,
      obstacle_at blueCircle LANE_1 610, obstacle_at redCircle LANE_3 300]))
     = [obstacle_at redBox LANE_4 600, obstacle_at redCircle LANE_3 300]"
proof -
  let ?box = "obstacle_at redBox LANE_4 600"
  let ?later = "[obstacle_at blueCircle LANE_1 610, obstacle_at redCircle LANE_3 300]"
  let ?g = "playing 0 (?box # ?later)"
  have l: "lethal ?g ?box"
    by (simp add: lethal_def playing_sel obstacle_at_def new_Car_def SDL_HasIntersection_def
          const_values)
  have p: "pickup ?g (obstacle_at blueCircle LANE_1 610)"
    by (simp add: pickup_def playing_sel obstacle_at_def new_Car_def SDL_HasIntersection_def
          const_values)
  have n: "\<not> pickup ?g ?box" "\<not> pickup ?g (obstacle_at redCircle LANE_3 300)"
    by (simp_all add: pickup_def playing_sel obstacle_at_def new_Car_def SDL_HasIntersection_def
          const_values)
  have c: "\<not> collected ?box" "\<not> collected (obstacle_at redCircle LANE_3 300)"
    by (simp_all add: obstacle_at_def)
  have s: "obstacles ?g = [] @ ?box # ?later"
    by (simp add: playing_sel)
  show ?thesis
    using checkCollision_no_break [of ?g "[]" ?box ?later] l p n c s
    by (simp add: playing_sel)
qed

subsection \<open>C5: the high score on entering the death screen\<close>

lemma checkCollision_highscore:
  "highscore (checkCollision g) =
     (if currentState (checkCollision g) = DEATH_SCREEN \<and> highscore g < score (checkCollision g)
      then score (checkCollision g) else highscore g)"
  "saveCalls (checkCollision g) =
     (if currentState (checkCollision g) = DEATH_SCREEN \<and> highscore g < score (checkCollision g)
      then Suc (saveCalls g) else saveCalls g)"
  by (simp_all add: checkCollision_eq saveHighscore_sel collided_sel)

lemma increaseDifficulty_sel:
  "score (increaseDifficulty rel t g) = score g"
  "highscore (increaseDifficulty rel t g) = highscore g"
  "saveCalls (increaseDifficulty rel t g) = saveCalls g"
  "currentState (increaseDifficulty rel t g) = currentState g"
  by (simp_all add: increaseDifficulty_def Let_def)

lemma spawnObstacle_sel:
  "score (spawnObstacle lanes coin junk g) = score g"
  "highscore (spawnObstacle lanes coin junk g) = highscore g"
  "saveCalls (spawnObstacle lanes coin junk g) = saveCalls g"
  "currentState (spawnObstacle lanes coin junk g) = currentState g"
  by (simp_all add: spawnObstacle_def)

lemma update_playing_sel:
  assumes "currentState g = NORMAL_MODE"
  shows "score (update rel lanes coin junk fl ticks g) = score (checkCollision (updateObstacles g))"
    and "highscore (update rel lanes coin junk fl ticks g) = highscore (checkCollision (updateObstacles g))"
    and "saveCalls (update rel lanes coin junk fl ticks g) = saveCalls (checkCollision (updateObstacles g))"
    and "currentState (update rel lanes coin junk fl ticks g)
           = currentState (checkCollision (updateObstacles g))"
  using assms by (simp_all add: update_def Let_def increaseDifficulty_sel spawnObstacle_sel)

text \<open>
  C5. The state becomes \<open>DEATH_SCREEN\<close> only inside \<open>update\<close>: by a miss in
  \<open>updateObstacles\<close> or by a box in \<open>checkCollision\<close>, which runs right after it in the
  same pass and ends with the high score test. When a pass of \<open>update\<close> that started in
  \<open>NORMAL_MODE\<close> ends in \<open>DEATH_SCREEN\<close>, the high score after the pass is the maximum of
  the high score before it and the score after it, so the score does not exceed it; and
  \<open>saveHighscore\<close> was called in the pass, once, if the score exceeds the previous high
  score, and not at all otherwise.
\<close>

theorem update_game_over_highscore:
  assumes "currentState g = NORMAL_MODE"
    and "currentState (update rel lanes coin junk fl ticks g) = DEATH_SCREEN"
  shows "highscore (update rel lanes coin junk fl ticks g)
           = max (highscore g) (score (update rel lanes coin junk fl ticks g)) \<and>
         score (update rel lanes coin junk fl ticks g) \<le> highscore (update rel lanes coin junk fl ticks g) \<and>
         saveCalls (update rel lanes coin junk fl ticks g)
           = saveCalls g + (if highscore g < score (update rel lanes coin junk fl ticks g) then 1 else 0)"
  using assms(2)
  by (simp add: update_playing_sel [OF assms(1)] checkCollision_highscore updateObstacles_sel)

theorem update_game_over_highscore_witness:
  "currentState (playing 3 [obstacle_at redBox LANE_4 600]) = NORMAL_MODE \<and>
   highscore (playing 3 [obstacle_at redBox LANE_4 600]) = 0 \<and>
   saveCalls (playing 3 [obstacle_at redBox LANE_4 600]) = 0 \<and>
   currentState (update Revised [0, 2, 1, 3] (\<lambda>i. 0) (\<lambda>i. None) (\<lambda>r. r) (\<lambda>k. 5016)
     (playing 3 [obstacle_at redBox LANE_4 600])) = DEATH_SCREEN \<and>
   score (update Revised [0, 2, 1, 3] (\<lambda>i. 0) (\<lambda>i. None) (\<lambda>r. r) (\<lambda>k. 5016)
     (playing 3 [obstacle_at redBox LANE_4 600])) = 3 \<and>
   highscore (update Revised [0, 2, 1, 3] (\<lambda>i. 0) (\<lambda>i. None) (\<lambda>r. r) (\<lambda>k. 5016)
     (playing 3 [obstacle_at redBox LANE_4 600])) = 3 \<and>
   saveCalls (update Revised [0, 2, 1, 3] (\<lambda>i. 0) (\<lambda>i. None) (\<lambda>r. r) (\<lambda>k. 5016)
     (playing 3 [obstacle_at redBox LANE_4 600])) = 1"
proof -
  let ?g = "playing 3 [obstacle_at redBox LANE_4 600]"
  let ?g' = "update Revised [0, 2, 1, 3] (\<lambda>i. 0) (\<lambda>i. None) (\<lambda>r. r) (\<lambda>k. 5016) ?g"
  have h1: "currentState ?g = NORMAL_MODE"
    by (simp add: playing_sel)
  have u: "obstacles (updateObstacles ?g) = [obstacle_at redBox LANE_4 606]"
    "redCar (updateObstacles ?g) = new_Car carRed LANE_4"
    "score (updateObstacles ?g) = 3"
    by (simp_all add: updateObstacles_eq advanced_def playing_sel move_down_def obstacle_at_def
          below_screen_def const_values)
  have l: "lethal (updateObstacles ?g) (obstacle_at redBox LANE_4 606)"
    unfolding lethal_def u
    by (simp add: obstacle_at_def new_Car_def SDL_HasIntersection_def const_values)
  have n: "\<not> pickup (updateObstacles ?g) (obstacle_at redBox LANE_4 606)"
    by (simp add: pickup_def obstacle_at_def)
  have h2: "currentState ?g' = DEATH_SCREEN"
    using l by (simp add: update_playing_sel [OF h1] checkCollision_sel collided_sel u)
  have sc: "score ?g' = 3"
    using n by (simp add: update_playing_sel [OF h1] checkCollision_sel collided_sel u)
  show ?thesis
    using update_game_over_highscore [OF h1 h2] h1 h2 sc
    by (simp add: playing_sel)
qed

subsection \<open>C3: the difficulty ramp\<close>

lemma increaseDifficulty_monotone:
  "spawnRate (increaseDifficulty rel t g) \<le> spawnRate g \<and>
   obstacleSpeed g \<le> obstacleSpeed (increaseDifficulty rel t g)"
  by (simp add: increaseDifficulty_def Let_def)

lemma increaseDifficulty_speed_bound:
  "obstacleSpeed g \<le> 16 \<Longrightarrow> obstacleSpeed (increaseDifficulty rel t g) \<le> 16"
  by (simp add: increaseDifficulty_def Let_def)

lemma increaseDifficulty_rate_floor:
  "(case rel of Original \<Rightarrow> 0 | Revised \<Rightarrow> 20) \<le> spawnRate g \<Longrightarrow> spawnRate g mod 20 = 0 \<Longrightarrow>
   (case rel of Original \<Rightarrow> 0 | Revised \<Rightarrow> 20) \<le> spawnRate (increaseDifficulty rel t g) \<and>
   spawnRate (increaseDifficulty rel t g) mod 20 = 0"
  by (cases rel) (auto simp add: increaseDifficulty_def Let_def)

text \<open>
  C3 holds in its monotonicity part (\<open>increaseDifficulty_monotone\<close>) and fails in its
  bounds. Both guards test the value before the step: \<open>spawnRate > 10\<close> lets 20 drop to 0
  in the original release, and \<open>obstacleSpeed < 15\<close> lets 14 rise to 16 in both releases.
  A session started at tick 5000, with \<open>increaseDifficulty\<close> called at the ticks of its
  schedule: in the original release the spawn rate is 0 after the fourth adjustment
  (below the floor 10, and not positive) and the speed is 16 after the fifth; in the
  revised release the spawn rate stops at 20 and the speed is 16 after the fifth.
\<close>

theorem increaseDifficulty_overshoot:
  "spawnRate (increaseDifficulty Original 50000 (increaseDifficulty Original 35000
     (increaseDifficulty Original 20000 (increaseDifficulty Original 5000 (started Original))))) = 0 \<and>
   obstacleSpeed (increaseDifficulty Original 65000 (increaseDifficulty Original 50000
     (increaseDifficulty Original 35000 (increaseDifficulty Original 20000
       (increaseDifficulty Original 5000 (started Original)))))) = 16 \<and>
   spawnRate (increaseDifficulty Revised 125000 (increaseDifficulty Revised 95000
     (increaseDifficulty Revised 65000 (increaseDifficulty Revised 35000
       (increaseDifficulty Revised 5000 (started Revised)))))) = 20 \<and>
   obstacleSpeed (increaseDifficulty Revised 125000 (increaseDifficulty Revised 95000
     (increaseDifficulty Revised 65000 (increaseDifficulty Revised 35000
       (increaseDifficulty Revised 5000 (started Revised)))))) = 16"
  by (simp add: started_Original started_Revised increaseDifficulty_def Let_def init_sel)

subsection \<open>C4: entering NORMAL_MODE\<close>

lemma handleEvents_original_menu_key:
  "currentState g = MAIN_MENU \<Longrightarrow>
   handleEvents Original (SDL_KEYDOWN k) ticks g
     = g\<lparr>currentState := NORMAL_MODE, startTime := ticks 0\<rparr>"
  by (simp add: handleEvents_def handleEvents_original_def)

lemma handleEvents_revised_enters_playing:
  assumes "currentState g \<noteq> NORMAL_MODE"
    and "currentState (handleEvents Revised ev ticks g) = NORMAL_MODE"
  shows "score (handleEvents Revised ev ticks g) = 0 \<and>
         obstacles (handleEvents Revised ev ticks g) = [] \<and>
         spawnRate (handleEvents Revised ev ticks g) = 80 \<and>
         obstacleSpeed (handleEvents Revised ev ticks g) = 6 \<and>
         rect_x (destRect (blueCar (handleEvents Revised ev ticks g))) = LANE_1 \<and>
         rect_x (destRect (redCar (handleEvents Revised ev ticks g))) = LANE_4 \<and>
         startTime (handleEvents Revised ev ticks g) = ticks 0"
  using assms
  by (cases ev; cases "currentState g")
     (auto simp add: handleEvents_def handleEvents_revised_def resetCars_def split: if_splits)

lemma handleEvents_revised_triggers:
  "currentState g = MAIN_MENU \<Longrightarrow>
     currentState (handleEvents Revised (SDL_KEYDOWN k) ticks g) = NORMAL_MODE"
  "currentState g = MAIN_MENU \<Longrightarrow>
     currentState (handleEvents Revised (SDL_MOUSEBUTTONDOWN mx my) ticks g) = NORMAL_MODE"
  "currentState g = DEATH_SCREEN \<Longrightarrow>
     currentState (handleEvents Revised (SDL_KEYDOWN SDLK_r) ticks g) = NORMAL_MODE"
  "currentState g = DEATH_SCREEN \<Longrightarrow> inside restartButtonRect mx my \<Longrightarrow>
     currentState (handleEvents Revised (SDL_MOUSEBUTTONDOWN mx my) ticks g) = NORMAL_MODE"
  by (simp_all add: handleEvents_def handleEvents_revised_def resetCars_def)

lemma first_tick_Original:
  "update Original [0, 2, 1, 3] (\<lambda>i. 0) junk fl (\<lambda>k. 5016) (started Original) =
     (started Original)\<lparr>
        obstacles := [obstacle_at redBox LANE_3 (- 40), obstacle_at blueBox LANE_1 (- 115)],
        spawnRate := 60, obstacleSpeed := 8, lastIncreaseTime := 5016, patternTimer := 60\<rparr>"
  by (simp add: started_Original init_def loadHighscore_def update_def updateObstacles_def
        checkCollision_def increaseDifficulty_def spawnObstacle_def spawn_iter_def choose_red_def
        choose_blue_def no_flags_def spawn_y_def shifted_y_def updateRotation_def
        updateMovement_def new_Car_def obstacle_at_def Let_def const_values)

text \<open>
  C4 holds in the revised release, where every branch of \<open>handleEvents\<close> that enters
  \<open>NORMAL_MODE\<close> calls \<open>resetCars\<close> and restarts the clock
  (\<open>handleEvents_revised_enters_playing\<close>). The original release breaks it. There a key
  press in the menu only sets the state and the clock, and Escape leaves a session without
  clearing it: after one pass of \<open>update\<close> in a fresh session, Escape and then any key
  lead back to \<open>NORMAL_MODE\<close> with the two spawned obstacles still in the list, the spawn
  rate at 60 and the speed at 8; a score of 3 left in the menu state is 3 after the key
  press; and restarting with R from the death screen leaves a blue car that stood on
  LANE_2 on LANE_2. The trace reads neither the indeterminate handle nor the rounding, so
  \<open>junk\<close> and \<open>fl\<close> are left open.
\<close>

theorem handleEvents_original_resumes_session:
  "currentState (update Original [0, 2, 1, 3] (\<lambda>i. 0) junk fl (\<lambda>k. 5016) (started Original)) = NORMAL_MODE \<and>
   currentState (handleEvents Original (SDL_KEYDOWN SDLK_ESCAPE) (\<lambda>k. 7000)
     (update Original [0, 2, 1, 3] (\<lambda>i. 0) junk fl (\<lambda>k. 5016) (started Original))) = MAIN_MENU \<and>
   currentState (handleEvents Original (SDL_KEYDOWN SDLK_other) (\<lambda>k. 9000)
     (handleEvents Original (SDL_KEYDOWN SDLK_ESCAPE) (\<lambda>k. 7000)
       (update Original [0, 2, 1, 3] (\<lambda>i. 0) junk fl (\<lambda>k. 5016) (started Original)))) = NORMAL_MODE \<and>
   obstacles (handleEvents Original (SDL_KEYDOWN SDLK_other) (\<lambda>k. 9000)
     (handleEvents Original (SDL_KEYDOWN SDLK_ESCAPE) (\<lambda>k. 7000)
       (update Original [0, 2, 1, 3] (\<lambda>i. 0) junk fl (\<lambda>k. 5016) (started Original))))
     = [obstacle_at redBox LANE_3 (- 40), obstacle_at blueBox LANE_1 (- 115)] \<and>
   spawnRate (handleEvents Original (SDL_KEYDOWN SDLK_other) (\<lambda>k. 9000)
     (handleEvents Original (SDL_KEYDOWN SDLK_ESCAPE) (\<lambda>k. 7000)
       (update Original [0, 2, 1, 3] (\<lambda>i. 0) junk fl (\<lambda>k. 5016) (started Original)))) = 60 \<and>
   obstacleSpeed (handleEvents Original (SDL_KEYDOWN SDLK_other) (\<lambda>k. 9000)
     (handleEvents Original (SDL_KEYDOWN SDLK_ESCAPE) (\<lambda>k. 7000)
       (update Original [0, 2, 1, 3] (\<lambda>i. 0) junk fl (\<lambda>k. 5016) (started Original)))) = 8 \<and>
   score (handleEvents Original (SDL_KEYDOWN SDLK_other) (\<lambda>k. 9000)
     ((started Original)\<lparr>currentState := MAIN_MENU, score := 3\<rparr>)) = 3 \<and>
   rect_x (destRect (blueCar (handleEvents Original (SDL_KEYDOWN SDLK_r) (\<lambda>k. 9000)
     ((started Original)\<lparr>currentState := DEATH_SCREEN,
        blueCar := (blueCar (started Original))\<lparr>destRect :=
          (destRect (blueCar (started Original)))\<lparr>rect_x := LANE_2\<rparr>\<rparr>\<rparr>)))) = LANE_2"
  unfolding first_tick_Original
  by (simp add: started_Original handleEvents_def handleEvents_original_def init_sel)

subsection \<open>C8: the ends of the car animations\<close>

text \<open>
  C8. For a car whose rotation animation is running: an update at the very tick the
  animation started computes the angle \<open>15 * sin 0 = 0\<close>, and an update at which the
  elapsed time (unsigned 32-bit difference of the ticks) has reached the 200 ms duration
  sets the angle to 0 and clears \<open>rotating\<close>. For a car whose move animation is running,
  an update at which the elapsed time has reached the duration sets the x-position to
  \<open>targetX\<close> and clears \<open>moving\<close>.
\<close>

theorem car_animation_boundary:
  "(rotating c \<and> now = rotationStartTime c \<longrightarrow> angle (updateRotation now c) = 0) \<and>
   (rotating c \<and> rotationDuration \<le> now - rotationStartTime c \<longrightarrow>
      angle (updateRotation now c) = 0 \<and> \<not> rotating (updateRotation now c)) \<and>
   (moving c \<and> moveDuration \<le> now - moveStartTime c \<longrightarrow>
      rect_x (destRect (updateMovement fl now c)) = targetX c \<and> \<not> moving (updateMovement fl now c))"
  by (auto simp add: updateRotation_def updateMovement_def Let_def rotationDuration_def
        moveDuration_def)

theorem car_animation_boundary_witness:
  "rotating turning_car \<and> moving turning_car \<and>
   rotationStartTime turning_car = 7000 \<and> moveStartTime turning_car = 7000 \<and>
   angle (updateRotation 7000 turning_car) = 0 \<and>
   rotationDuration \<le> 7200 - rotationStartTime turning_car \<and>
   angle (updateRotation 7200 turning_car) = 0 \<and> \<not> rotating (updateRotation 7200 turning_car) \<and>
   moveDuration \<le> 7200 - moveStartTime turning_car \<and>
   rect_x (destRect (updateMovement (\<lambda>r. r) 7200 turning_car)) = LANE_2 \<and>
   \<not> moving (updateMovement (\<lambda>r. r) 7200 turning_car)"
  using car_animation_boundary [of turning_car 7000] car_animation_boundary [of turning_car 7200]
  by (simp add: turning_car_def new_Car_def rotationDuration_def moveDuration_def)

subsection \<open>C9: saving and loading the high score\<close>

lemma xor_key_twice: "(w XOR 0xA5A5A5A5) XOR 0xA5A5A5A5 = (w :: 32 word)"
  by (simp add: xor.assoc)

text \<open>
  C9. When the file does not exist, \<open>loadHighscore\<close> changes nothing, so after \<open>init\<close>
  the high score is the default 0. When the file can be written and the high score is a
  32-bit signed value, \<open>saveHighscore\<close> followed by \<open>loadHighscore\<close> gives the saved
  value back, whatever the high score member held before the load; so does a new \<open>init\<close>
  on the file that \<open>saveHighscore\<close> left. The XOR with \<open>0xA5A5A5A5\<close> before the write is
  undone by the same XOR after the read.
\<close>

theorem highscore_round_trip:
  "(playerDat g = None \<longrightarrow> loadHighscore g = g) \<and>
   highscore (init now textH None writable) = 0 \<and>
   (playerDatWritable g \<and> - (2 ^ 31) \<le> highscore g \<and> highscore g < 2 ^ 31 \<longrightarrow>
      highscore (loadHighscore ((saveHighscore g)\<lparr>highscore := h\<rparr>)) = highscore g \<and>
      highscore (init now textH (playerDat (saveHighscore g)) writable) = highscore g)"
proof -
  have rt: "sint (word_of_int k :: 32 word) = k" if "- (2 ^ 31) \<le> k" "k < 2 ^ 31" for k :: int
    using that by (simp add: signed_of_int signed_take_bit_int_eq_self)
  show ?thesis
    using rt [of "highscore g"]
    by (simp add: loadHighscore_def saveHighscore_def init_def Let_def xor_key_twice)
qed

theorem highscore_round_trip_witness:
  "playerDat (init 1000 20 None True) = None \<and>
   loadHighscore (init 1000 20 None True) = init 1000 20 None True \<and>
   highscore (init 1000 20 None True) = 0 \<and>
   playerDatWritable ((init 1000 20 None True)\<lparr>highscore := 5\<rparr>) \<and>
   highscore ((init 1000 20 None True)\<lparr>highscore := 5\<rparr>) = 5 \<and>
   playerDat (saveHighscore ((init 1000 20 None True)\<lparr>highscore := 5\<rparr>)) = Some 0xA5A5A5A0 \<and>
   highscore (loadHighscore
     ((saveHighscore ((init 1000 20 None True)\<lparr>highscore := 5\<rparr>))\<lparr>highscore := 0\<rparr>)) = 5 \<and>
   highscore (init 9000 20
     (playerDat (saveHighscore ((init 1000 20 None True)\<lparr>highscore := 5\<rparr>))) True) = 5"
proof -
  have a: "playerDat (init 1000 20 None True) = None"
    by (simp add: init_def loadHighscore_def)
  have b: "playerDatWritable ((init 1000 20 None True)\<lparr>highscore := 5\<rparr>)"
    and c: "highscore ((init 1000 20 None True)\<lparr>highscore := 5\<rparr>) = 5"
    by (simp_all add: init_def loadHighscore_def)
  have d: "playerDat (saveHighscore ((init 1000 20 None True)\<lparr>highscore := 5\<rparr>)) = Some 0xA5A5A5A0"
    by (simp add: init_def loadHighscore_def saveHighscore_def Let_def)
  show ?thesis
    using highscore_round_trip [of "init 1000 20 None True" 1000 20 True 0]
      highscore_round_trip [of "(init 1000 20 None True)\<lparr>highscore := 5\<rparr>" 9000 20 True 0]
      a b c d
    by simp
qed

end
